theory Spec2Isabelle
  imports Complex_Main "HOL-Library.Multiset"
begin

section \<open>Strings\<close>

text \<open>
  The classifiers of the plugin (\<^verbatim>\<open>extension/index.ts\<close>) and of the worker
  (\<^verbatim>\<open>worker/server.ts\<close>) only use two string operations:
  \<^verbatim>\<open>toLowerCase()\<close> and \<^verbatim>\<open>String.prototype.includes\<close> (here \<open>str_includes\<close>),
  the latter with ASCII patterns. Strings are modelled as lists of characters; \<open>toLowerCase\<close> maps the letters A to Z to a to z
  and leaves every other character alone (case mapping beyond ASCII is not modelled).
\<close>

definition toLowerCaseChar :: "char \<Rightarrow> char" where
  "toLowerCaseChar c =
     (case map_of (zip ''ABCDEFGHIJKLMNOPQRSTUVWXYZ'' ''abcdefghijklmnopqrstuvwxyz'') c of
        Some l \<Rightarrow> l
      | None \<Rightarrow> c)"

definition toLowerCase :: "string \<Rightarrow> string" where
  "toLowerCase s = map toLowerCaseChar s"

fun startsWith :: "string \<Rightarrow> string \<Rightarrow> bool" where
  "startsWith s [] = True"
| "startsWith [] (p # ps) = False"
| "startsWith (c # cs) (p # ps) = (c = p \<and> startsWith cs ps)"

fun str_includes :: "string \<Rightarrow> string \<Rightarrow> bool" where
  "str_includes [] p = (p = [])"
| "str_includes (c # cs) p = (startsWith (c # cs) p \<or> str_includes cs p)"

section \<open>Observation classification\<close>

subsection \<open>Plugin side: \<^verbatim>\<open>classifyToolResult\<close>\<close>

text \<open>
  \<^verbatim>\<open>classifyToolResult(toolName, input, output)\<close> returns an object
  \<^verbatim>\<open>{ type, importance }\<close>, modelled as a pair. The guards \<^verbatim>\<open>(input || "")\<close> of
  the source are the identity on the strings its signature declares. Importance is a
  JavaScript number; it is modelled as an exact rational, so rounding of binary floating
  point is not part of the model.
\<close>

definition classifyToolResult :: "string \<Rightarrow> string \<Rightarrow> string \<Rightarrow> string \<times> rat" where
  "classifyToolResult toolName inp outp =
     (let lowerTool = toLowerCase toolName;
          lowerInput = toLowerCase inp;
          lowerOutput = toLowerCase outp
      in if str_includes lowerInput ''fix'' \<or> str_includes lowerOutput ''fixed'' \<or>
            str_includes lowerOutput ''resolved'' \<or> str_includes lowerOutput ''error''
         then (''bugfix'', 0.9)
         else if str_includes lowerTool ''write'' \<or> str_includes lowerTool ''edit''
         then (''code_change'', 0.7)
         else if str_includes lowerTool ''exec'' \<and> str_includes lowerInput ''git''
         then (''git_operation'', 0.6)
         else if str_includes lowerInput ''test'' \<or> str_includes lowerOutput ''passed'' \<or>
            str_includes lowerOutput ''failed''
         then (''testing'', 0.6)
         else if str_includes lowerTool ''search'' \<or> str_includes lowerTool ''web_''
         then (''research'', 0.4)
         else if str_includes lowerTool ''read''
         then (''exploration'', 0.3)
         else (''tool_use'', 0.5))"

subsection \<open>Worker side: \<^verbatim>\<open>classifyObservation\<close> and \<^verbatim>\<open>calculateImportance\<close>\<close>

definition classifyObservation :: "string \<Rightarrow> string \<Rightarrow> string \<Rightarrow> string" where
  "classifyObservation toolName inp outp =
     (let lowerTool = toLowerCase toolName;
          lowerInput = toLowerCase inp;
          lowerOutput = toLowerCase outp
      in if str_includes lowerTool ''write'' \<or> str_includes lowerTool ''edit''
         then (if str_includes lowerInput ''fix'' \<or> str_includes lowerOutput ''fixed''
               then ''bugfix'' else ''code_change'')
         else if str_includes lowerTool ''exec'' \<or> lowerTool = ''bash''
         then (if str_includes lowerInput ''git'' then ''git_operation''
               else if str_includes lowerInput ''npm'' \<or> str_includes lowerInput ''yarn''
               then ''dependency''
               else if str_includes lowerInput ''test'' then ''testing''
               else ''command'')
         else if str_includes lowerTool ''read'' then ''exploration''
         else if str_includes lowerTool ''search'' then ''research''
         else ''tool_use'')"

text \<open>
  The table \<^verbatim>\<open>typeImportance\<close> is an object literal read with
  \<^verbatim>\<open>typeImportance[type] || 0.5\<close>: an association list, with 0.5 for a type that is
  not a key (every value of the table is truthy).
\<close>

definition typeImportance :: "(string \<times> rat) list" where
  "typeImportance =
     [(''bugfix'', 0.9), (''architecture'', 0.9), (''decision'', 0.85),
      (''code_change'', 0.7), (''git_operation'', 0.6), (''testing'', 0.6),
      (''dependency'', 0.5), (''research'', 0.4), (''exploration'', 0.3),
      (''command'', 0.4), (''tool_use'', 0.5)]"

definition calculateImportance :: "string \<Rightarrow> string \<Rightarrow> string \<Rightarrow> string \<Rightarrow> rat" where
  "calculateImportance obsType toolName inp outp =
     (let base = (case map_of typeImportance obsType of Some v \<Rightarrow> v | None \<Rightarrow> 0.5);
          lowerOutput = toLowerCase outp;
          boosted = (if str_includes lowerOutput ''error'' \<or> str_includes lowerOutput ''failed''
                     then min (base + 0.1) 1.0 else base)
      in if str_includes lowerOutput ''success'' \<or> str_includes lowerOutput ''completed''
         then min (boosted + 0.05) 1.0 else boosted)"

text \<open>
  Lines 253 to 256 of the tool-result handler: a type or an importance the caller sent
  wins (\<^verbatim>\<open>type || classifyObservation(...)\<close>, so an empty type string counts as
  absent; \<^verbatim>\<open>importance ?? calculateImportance(...)\<close>).
\<close>

definition autoClassify ::
  "string option \<Rightarrow> rat option \<Rightarrow> string \<Rightarrow> string \<Rightarrow> string \<Rightarrow> string \<times> rat" where
  "autoClassify typeOpt importanceOpt toolName inp outp =
     (let obsType = (case typeOpt of
                       None \<Rightarrow> classifyObservation toolName inp outp
                     | Some t \<Rightarrow> if t = [] then classifyObservation toolName inp outp else t);
          obsImportance = (case importanceOpt of
                             None \<Rightarrow> calculateImportance obsType toolName inp outp
                           | Some i \<Rightarrow> i)
      in (obsType, obsImportance))"

section \<open>The store\<close>

text \<open>
  \<^verbatim>\<open>database/index.ts\<close> keeps sessions and observations in two SQLite tables
  (\<^verbatim>\<open>schema.sql\<close>). A table is the list of its rows in rowid order. Timestamps
  (\<^verbatim>\<open>CURRENT_TIMESTAMP\<close>, text of the fixed form \<^verbatim>\<open>YYYY-MM-DD HH:MM:SS\<close>, which
  SQLite compares as text and so chronologically) are modelled as a count of seconds;
  the clock reading is an argument of every operation that writes. The
  \<^verbatim>\<open>metadata\<close> column holds JSON text that no operation below inspects.
\<close>

record session =
  s_id :: int
  session_key :: string
  project_path :: "string option"
  started_at :: int
  ended_at :: "int option"
  s_summary :: "string option"
  summary_tokens :: "int option"
  s_metadata :: "string option"

record observation =
  o_id :: int
  session_id :: int
  o_type :: string
  tool_name :: "string option"
  o_input :: "string option"
  o_output :: "string option"
  o_summary :: "string option"
  tokens :: "int option"
  importance :: rat
  created_at :: int
  o_metadata :: "string option"

text \<open>The argument object of \<^verbatim>\<open>createObservation\<close>: every field but two is optional.\<close>

record new_observation =
  n_session_id :: int
  n_type :: string
  n_tool_name :: "string option"
  n_input :: "string option"
  n_output :: "string option"
  n_summary :: "string option"
  n_tokens :: "int option"
  n_importance :: "rat option"
  n_metadata :: "string option"

text \<open>
  The two \<^verbatim>\<open>AUTOINCREMENT\<close> counters are part of the state: a new row gets the
  counter plus one (no operation deletes a row or inserts an explicit id).
\<close>

record database =
  sessions :: "session list"
  observations :: "observation list"
  sessions_seq :: int
  observations_seq :: int

definition emptyDatabase :: database where
  "emptyDatabase = \<lparr>sessions = [], observations = [], sessions_seq = 0, observations_seq = 0\<rparr>"

text \<open>
  What the engine raises: a violated constraint of the schema
  (\<^verbatim>\<open>session_key TEXT UNIQUE NOT NULL\<close>, \<^verbatim>\<open>FOREIGN KEY (session_id)\<close> with
  \<^verbatim>\<open>foreign_keys = ON\<close>) and a rejected full-text query.
\<close>

datatype error = SQLITE_CONSTRAINT_UNIQUE | SQLITE_CONSTRAINT_FOREIGNKEY | SQLITE_ERROR

text \<open>
  JavaScript's \<^verbatim>\<open>x || null\<close> on an optional string and an optional number: the
  empty string and zero are falsy.
\<close>

definition strOrNull :: "string option \<Rightarrow> string option" where
  "strOrNull x = (case x of None \<Rightarrow> None | Some s \<Rightarrow> if s = [] then None else Some s)"

definition numOrNull :: "int option \<Rightarrow> int option" where
  "numOrNull x = (case x of None \<Rightarrow> None | Some n \<Rightarrow> if n = 0 then None else Some n)"

subsection \<open>Sessions\<close>

definition createSession ::
  "int \<Rightarrow> string \<Rightarrow> string option \<Rightarrow> database \<Rightarrow> error + (session \<times> database)" where
  "createSession now sessionKey projectPath db =
     (if sessionKey \<in> set (map session_key (sessions db)) then Inl SQLITE_CONSTRAINT_UNIQUE
      else
        let row = \<lparr>s_id = sessions_seq db + 1, session_key = sessionKey,
                   project_path = strOrNull projectPath, started_at = now,
                   ended_at = None, s_summary = None, summary_tokens = None,
                   s_metadata = None\<rparr>
        in Inr (row, db\<lparr>sessions := sessions db @ [row], sessions_seq := s_id row\<rparr>))"

definition getSession :: "string \<Rightarrow> database \<Rightarrow> session option" where
  "getSession sessionKey db = find (\<lambda>s. session_key s = sessionKey) (sessions db)"

definition getSessionById :: "int \<Rightarrow> database \<Rightarrow> session option" where
  "getSessionById i db = find (\<lambda>s. s_id s = i) (sessions db)"

definition endSession :: "int \<Rightarrow> string \<Rightarrow> string option \<Rightarrow> database \<Rightarrow> database" where
  "endSession now sessionKey summaryOpt db =
     db\<lparr>sessions :=
          map (\<lambda>s. if session_key s = sessionKey
                    then s\<lparr>ended_at := Some now, s_summary := strOrNull summaryOpt\<rparr> else s)
              (sessions db)\<rparr>"

subsection \<open>Observations\<close>

definition createObservation ::
  "int \<Rightarrow> new_observation \<Rightarrow> database \<Rightarrow> error + (observation \<times> database)" where
  "createObservation now obs db =
     (if n_session_id obs \<notin> set (map s_id (sessions db)) then Inl SQLITE_CONSTRAINT_FOREIGNKEY
      else
        let row = \<lparr>o_id = observations_seq db + 1,
                   session_id = n_session_id obs,
                   o_type = n_type obs,
                   tool_name = strOrNull (n_tool_name obs),
                   o_input = strOrNull (n_input obs),
                   o_output = strOrNull (n_output obs),
                   o_summary = strOrNull (n_summary obs),
                   tokens = numOrNull (n_tokens obs),
                   importance = (case n_importance obs of None \<Rightarrow> 0.5 | Some i \<Rightarrow> i),
                   created_at = now,
                   o_metadata = n_metadata obs\<rparr>
        in Inr (row, db\<lparr>observations := observations db @ [row],
                        observations_seq := o_id row\<rparr>))"



definition getSessionObservations :: "int \<Rightarrow> database \<Rightarrow> observation list" where
  "getSessionObservations sessionId db =
     sort_key created_at (filter (\<lambda>ob. session_id ob = sessionId) (observations db))"

subsection \<open>Timeline\<close>


subsection \<open>Search\<close>

text \<open>
  The full-text index \<^verbatim>\<open>observations_fts\<close> (kept equal to the table by the
  triggers of the schema) and its \<^verbatim>\<open>bm25\<close> ranking belong to SQLite, so the engine
  is a parameter: \<open>fts query rows\<close> is \<open>None\<close> when the engine rejects the
  \<^verbatim>\<open>MATCH\<close> expression, and otherwise the ranking, which gives \<open>None\<close> for a row
  that does not match and the row's rank for one that does.
\<close>

type_synonym fts5 = "string \<Rightarrow> observation list \<Rightarrow> (observation \<Rightarrow> rat option) option"

record searchResult =
  r_id :: int
  r_type :: string
  r_tool_name :: "string option"
  r_summary :: "string option"
  r_created_at :: int
  r_importance :: rat
  r_rank :: rat

record searchOptions =
  opt_type :: "string option"
  opt_since :: "int option"
  opt_limit :: "int option"

text \<open>\<^verbatim>\<open>LIMIT n\<close>: a negative \<open>n\<close> means no limit in SQLite.\<close>

definition sqlLimit :: "int \<Rightarrow> 'a list \<Rightarrow> 'a list" where
  "sqlLimit n rows = (if n < 0 then rows else take (nat n) rows)"

definition searchRow :: "observation \<Rightarrow> rat \<Rightarrow> searchResult" where
  "searchRow ob rk =
     \<lparr>r_id = o_id ob, r_type = o_type ob, r_tool_name = tool_name ob,
      r_summary = o_summary ob, r_created_at = created_at ob,
      r_importance = importance ob, r_rank = rk\<rparr>"

definition search ::
  "fts5 \<Rightarrow> string \<Rightarrow> searchOptions \<Rightarrow> database \<Rightarrow> error + searchResult list" where
  "search fts queryText options db =
     (let limit = (case opt_limit options of None \<Rightarrow> 10 | Some l \<Rightarrow> if l = 0 then 10 else l)
      in case fts queryText (observations db) of
           None \<Rightarrow> Inl SQLITE_ERROR
         | Some rank \<Rightarrow>
             Inr (sqlLimit limit
                   (sort_key r_rank
                     (List.map_filter
                        (\<lambda>ob. case rank ob of
                                 None \<Rightarrow> None
                               | Some rk \<Rightarrow>
                                   if (case strOrNull (opt_type options) of
                                         None \<Rightarrow> True | Some t \<Rightarrow> o_type ob = t) \<and>
                                      (case opt_since options of
                                         None \<Rightarrow> True | Some since \<Rightarrow> since \<le> created_at ob)
                                   then Some (searchRow ob rk) else None)
                        (observations db)))))"

subsection \<open>Context for injection\<close>

record contextOptions =
  projectPath :: "string option"
  maxTokens :: "int option"
  includeTypes :: "string list option"

text \<open>
  The candidate query: type among the included types, importance at least 0.5, optionally
  a session of the project; \<^verbatim>\<open>ORDER BY importance DESC, created_at DESC LIMIT 100\<close>.
  Sorting stably by the second key and then stably by the first is the sort on the pair.
\<close>

definition contextCandidates :: "contextOptions \<Rightarrow> database \<Rightarrow> observation list" where
  "contextCandidates options db =
     (let types = (case includeTypes options of
                     None \<Rightarrow> [''decision'', ''bugfix'', ''architecture'']
                   | Some ts \<Rightarrow> ts)
      in take 100
           (sort_key (\<lambda>ob. - importance ob)
             (sort_key (\<lambda>ob. - created_at ob)
               (filter
                  (\<lambda>ob. o_type ob \<in> set types \<and> 0.5 \<le> importance ob \<and>
                        (case strOrNull (projectPath options) of
                           None \<Rightarrow> True
                         | Some p \<Rightarrow>
                             session_id ob \<in>
                               set (map s_id (filter (\<lambda>s. project_path s = Some p)
                                                (sessions db)))))
                  (observations db)))))"

text \<open>\<^verbatim>\<open>obs.tokens || 100\<close>: the estimate of a row without a token count.\<close>

definition obsTokens :: "observation \<Rightarrow> int" where
  "obsTokens ob = (case numOrNull (tokens ob) of None \<Rightarrow> 100 | Some t \<Rightarrow> t)"

text \<open>
  The \<^verbatim>\<open>for\<close> loop over the rows, with its two accumulators; \<^verbatim>\<open>break\<close> returns
  them as they are.
\<close>

fun budgetLoop ::
  "int \<Rightarrow> observation list \<Rightarrow> observation list \<Rightarrow> int \<Rightarrow> observation list \<times> int" where
  "budgetLoop maxT [] acc totalTokens = (acc, totalTokens)"
| "budgetLoop maxT (row # rows) acc totalTokens =
     (if totalTokens + obsTokens row \<le> maxT
      then budgetLoop maxT rows (acc @ [row]) (totalTokens + obsTokens row)
      else (acc, totalTokens))"

definition contextBudget :: "contextOptions \<Rightarrow> int" where
  "contextBudget options =
     (case numOrNull (maxTokens options) of None \<Rightarrow> 4000 | Some m \<Rightarrow> m)"

definition getContextForInjection ::
  "contextOptions \<Rightarrow> database \<Rightarrow> observation list \<times> int" where
  "getContextForInjection options db =
     budgetLoop (contextBudget options) (contextCandidates options db) [] 0"

section \<open>The worker's HTTP handlers\<close>

text \<open>
  A handler takes the request's fields and the store and returns its response and the
  store, or the error that escapes it (the framework then answers with a server error).
\<close>

definition getOrCreateSession ::
  "int \<Rightarrow> string \<Rightarrow> database \<Rightarrow> error + (session \<times> database)" where
  "getOrCreateSession now sessionKey db =
     (case getSession sessionKey db of
        Some s \<Rightarrow> Inr (s, db)
      | None \<Rightarrow> createSession now sessionKey None db)"

text \<open>\<^verbatim>\<open>POST /api/observations\<close>: the body's fields but \<^verbatim>\<open>session_key\<close> go to the store.\<close>

definition apiObservations ::
  "int \<Rightarrow> string \<Rightarrow> new_observation \<Rightarrow> database \<Rightarrow> error + (observation \<times> database)" where
  "apiObservations now sessionKey observationData db =
     (case getOrCreateSession now sessionKey db of
        Inl e \<Rightarrow> Inl e
      | Inr (s, db1) \<Rightarrow> createObservation now (observationData\<lparr>n_session_id := s_id s\<rparr>) db1)"

text \<open>\<^verbatim>\<open>POST /api/search\<close>, with its \<^verbatim>\<open>try\<close> and \<^verbatim>\<open>catch\<close>.\<close>

record searchResponse =
  sr_query :: string
  sr_results :: "searchResult list"
  sr_count :: nat
  sr_error :: "string option"

definition tryCatch :: "(error + 'a) \<Rightarrow> (error \<Rightarrow> error + 'a) \<Rightarrow> error + 'a" where
  "tryCatch body handler = (case body of Inl e \<Rightarrow> handler e | Inr v \<Rightarrow> Inr v)"

definition apiSearch ::
  "fts5 \<Rightarrow> string \<Rightarrow> searchOptions \<Rightarrow> database \<Rightarrow> error + searchResponse" where
  "apiSearch fts queryText options db =
     tryCatch
       (case search fts queryText options db of
          Inl e \<Rightarrow> Inl e
        | Inr rs \<Rightarrow>
            Inr \<lparr>sr_query = queryText, sr_results = rs, sr_count = length rs,
                 sr_error = None\<rparr>)
       (\<lambda>e. Inr \<lparr>sr_query = queryText, sr_results = [], sr_count = 0,
                  sr_error = Some ''Search query syntax error''\<rparr>)"

text \<open>\<^verbatim>\<open>POST /api/hooks/session-start\<close>.\<close>

definition hookSessionStart ::
  "int \<Rightarrow> string \<Rightarrow> string option \<Rightarrow> database
     \<Rightarrow> error + ((session \<times> observation list \<times> int) \<times> database)" where
  "hookSessionStart now sessionKey projectPathOpt db =
     (case createSession now sessionKey projectPathOpt db of
        Inl e \<Rightarrow> Inl e
      | Inr (s, db1) \<Rightarrow>
          Inr ((s, getContextForInjection
                     \<lparr>projectPath = projectPathOpt, maxTokens = Some 4000,
                      includeTypes = None\<rparr> db1), db1))"

text \<open>\<^verbatim>\<open>POST /api/hooks/tool-result\<close>.\<close>

definition truncateForStorage :: "string \<Rightarrow> nat \<Rightarrow> string" where
  "truncateForStorage txt maxLength =
     (if length txt \<le> maxLength then txt else take maxLength txt @ ''... [truncated]'')"

record toolResultBody =
  tr_session_key :: string
  tr_tool_name :: string
  tr_input :: string
  tr_output :: string
  tr_type :: "string option"
  tr_importance :: "rat option"

definition hookToolResult ::
  "int \<Rightarrow> toolResultBody \<Rightarrow> database \<Rightarrow> error + (observation \<times> database)" where
  "hookToolResult now body db =
     (case getOrCreateSession now (tr_session_key body) db of
        Inl e \<Rightarrow> Inl e
      | Inr (s, db1) \<Rightarrow>
          let (obsType, obsImportance) =
                autoClassify (tr_type body) (tr_importance body)
                  (tr_tool_name body) (tr_input body) (tr_output body)
          in createObservation now
               \<lparr>n_session_id = s_id s, n_type = obsType,
                n_tool_name = Some (tr_tool_name body),
                n_input = Some (truncateForStorage (tr_input body) 5000),
                n_output = Some (truncateForStorage (tr_output body) 10000),
                n_summary = None, n_tokens = None,
                n_importance = Some obsImportance, n_metadata = None\<rparr> db1)"











section \<open>Example stores\<close>

text \<open>
  The stores of the examples are built by the code itself: a list of requests to
  \<^verbatim>\<open>POST /api/observations\<close>, each with the clock reading at its arrival, run in
  order from the empty store.
\<close>

definition plainObservation :: "string \<Rightarrow> int option \<Rightarrow> rat option \<Rightarrow> new_observation" where
  "plainObservation ty tk imp =
     \<lparr>n_session_id = 0, n_type = ty, n_tool_name = None, n_input = None, n_output = None,
      n_summary = None, n_tokens = tk, n_importance = imp, n_metadata = None\<rparr>"

fun ingestAll :: "(int \<times> string \<times> new_observation) list \<Rightarrow> database \<Rightarrow> database" where
  "ingestAll [] db = db"
| "ingestAll ((now, sessionKey, observationData) # rest) db =
     (case apiObservations now sessionKey observationData db of
        Inl e \<Rightarrow> db
      | Inr (ob, db') \<Rightarrow> ingestAll rest db')"

text \<open>
  Five observations of two sessions; the third is the center of the timeline example,
  the second and the fourth are exactly two hours from it, the first and the fifth two
  hours and one minute.
\<close>

definition timelineStore :: database where
  "timelineStore =
     ingestAll
       [(2740, ''s1'', plainObservation ''tool_use'' None None),
        (2800, ''s1'', plainObservation ''tool_use'' None None),
        (10000, ''s1'', plainObservation ''decision'' None None),
        (17200, ''s2'', plainObservation ''tool_use'' None None),
        (17260, ''s2'', plainObservation ''tool_use'' None None)]
       emptyDatabase"

text \<open>
  Four candidates for injection with token counts 40, 40, 40 and 10, in the order of the
  candidate query, and a budget of 100.
\<close>

definition budgetStore :: database where
  "budgetStore =
     ingestAll
       [(100, ''s1'', plainObservation ''decision'' (Some 40) (Some 0.9)),
        (200, ''s1'', plainObservation ''bugfix'' (Some 40) (Some 0.8)),
        (300, ''s1'', plainObservation ''architecture'' (Some 40) (Some 0.7)),
        (400, ''s1'', plainObservation ''decision'' (Some 10) (Some 0.6))]
       emptyDatabase"

definition budgetOptions :: contextOptions where
  "budgetOptions = \<lparr>projectPath = None, maxTokens = Some 100, includeTypes = None\<rparr>"

text \<open>
  A stand-in for the full-text engine, for the examples only: it rejects the empty
  query and a query with an odd number of double quotes, matches a row whose type
  contains the query text, and gives every match the same rank.
\<close>

definition sampleFts :: fts5 where
  "sampleFts queryText rows =
     (if queryText = [] \<or> odd (length (filter (\<lambda>c. c = CHR 0x22) queryText)) then None
      else Some (\<lambda>ob. if str_includes (toLowerCase (o_type ob)) (toLowerCase queryText)
                        then Some (- 1) else None))"

definition noOptions :: searchOptions where
  "noOptions = \<lparr>opt_type = None, opt_since = None, opt_limit = None\<rparr>"

text \<open>Twelve decisions of one session, one a second.\<close>

definition searchStore :: database where
  "searchStore =
     ingestAll
       (map (\<lambda>t. (t, ''s1'', plainObservation ''decision'' None None))
          [1, 2, 3, 4, 5, 6, 7, 8, 9, 10, 11, 12])
       emptyDatabase"

text \<open>
  The end-to-end scenario of the specification: session "s1" is created, then the
  tool-result hook receives tool "Write", input "fix null pointer" and output
  "fixed, tests passed", with neither type nor importance.
\<close>

definition scenarioBody :: toolResultBody where
  "scenarioBody =
     \<lparr>tr_session_key = ''s1'', tr_tool_name = ''Write'', tr_input = ''fix null pointer'',
      tr_output = ''fixed, tests passed'', tr_type = None, tr_importance = None\<rparr>"

definition scenarioIngest :: "int \<Rightarrow> int \<Rightarrow> error + (observation \<times> database)" where
  "scenarioIngest t0 t1 =
     (case createSession t0 ''s1'' None emptyDatabase of
        Inl e \<Rightarrow> Inl e
      | Inr (s, db1) \<Rightarrow> hookToolResult t1 scenarioBody db1)"

section \<open>Properties of the classifiers\<close>

lemma map_of_typeImportance_bugfix: "map_of typeImportance ''bugfix'' = Some (9/10)"
  by (simp add: typeImportance_def)

lemma typeImportance_lookup_bounds:
  "0 \<le> (case map_of typeImportance obsType of Some v \<Rightarrow> v | None \<Rightarrow> 0.5) \<and>
   (case map_of typeImportance obsType of Some v \<Rightarrow> v | None \<Rightarrow> 0.5) \<le> 1"
  by (simp add: typeImportance_def)

lemma calculateImportance_bounds:
  "0 \<le> calculateImportance obsType toolName inp outp \<and>
   calculateImportance obsType toolName inp outp \<le> 1"
proof -
  define b where "b = (case map_of typeImportance obsType of Some v \<Rightarrow> v | None \<Rightarrow> 0.5)"
  have lo: "0 \<le> b" and hi: "b \<le> 1"
    using typeImportance_lookup_bounds [of obsType] by (simp_all add: b_def)
  have "calculateImportance obsType toolName inp outp =
          (let boosted = (if str_includes (toLowerCase outp) ''error'' \<or>
                             str_includes (toLowerCase outp) ''failed''
                          then min (b + 0.1) 1.0 else b)
           in if str_includes (toLowerCase outp) ''success'' \<or>
                 str_includes (toLowerCase outp) ''completed''
              then min (boosted + 0.05) 1.0 else boosted)"
    unfolding calculateImportance_def b_def Let_def by (rule refl)
  then show ?thesis
    using lo hi by (simp add: Let_def min_def)
qed

text \<open>
  Claim C1, as amended. Whenever the lower-cased input contains "fix", or the lower-cased
  output contains "fixed", "resolved" or "error", the plugin's classifier
  \<open>classifyToolResult\<close> returns type bugfix with importance 0.9, whatever the tool name:
  its first rule comes before the write/edit rule. The worker's classifier
  \<open>classifyObservation\<close> tests the tool name first: it returns bugfix exactly when the
  tool name contains "write" or "edit" and the input contains "fix" or the output
  contains "fixed".
\<close>

theorem C1_fix_signal_classification:
  "(str_includes (toLowerCase inp) ''fix'' \<or> str_includes (toLowerCase outp) ''fixed'' \<or>
    str_includes (toLowerCase outp) ''resolved'' \<or> str_includes (toLowerCase outp) ''error''
      \<longrightarrow> classifyToolResult toolName inp outp = (''bugfix'', 9/10))
   \<and> (classifyObservation toolName inp outp = ''bugfix'' \<longleftrightarrow>
        (str_includes (toLowerCase toolName) ''write'' \<or> str_includes (toLowerCase toolName) ''edit'')
        \<and> (str_includes (toLowerCase inp) ''fix'' \<or> str_includes (toLowerCase outp) ''fixed''))"
proof (intro conjI impI)
  assume "str_includes (toLowerCase inp) ''fix'' \<or> str_includes (toLowerCase outp) ''fixed'' \<or>
    str_includes (toLowerCase outp) ''resolved'' \<or> str_includes (toLowerCase outp) ''error''"
  then show "classifyToolResult toolName inp outp = (''bugfix'', 9/10)"
    unfolding classifyToolResult_def Let_def by simp
next
  show "classifyObservation toolName inp outp = ''bugfix'' \<longleftrightarrow>
        (str_includes (toLowerCase toolName) ''write'' \<or> str_includes (toLowerCase toolName) ''edit'')
        \<and> (str_includes (toLowerCase inp) ''fix'' \<or> str_includes (toLowerCase outp) ''fixed'')"
    unfolding classifyObservation_def Let_def by simp
qed

text \<open>
  The example of the specification: input "please fix the bug", output "fixed", under
  the tool names "Write" and "Read".
\<close>

theorem C1_fix_signal_classification_witness:
  "str_includes (toLowerCase ''please fix the bug'') ''fix''
   \<and> classifyToolResult ''Write'' ''please fix the bug'' ''fixed'' = (''bugfix'', 9/10)
   \<and> classifyToolResult ''Read'' ''please fix the bug'' ''fixed'' = (''bugfix'', 9/10)
   \<and> classifyObservation ''Write'' ''please fix the bug'' ''fixed'' = ''bugfix''"
proof -
  have h: "str_includes (toLowerCase ''please fix the bug'') ''fix''"
    by (simp add: toLowerCase_def toLowerCaseChar_def)
  have w: "str_includes (toLowerCase ''Write'') ''write''"
    by (simp add: toLowerCase_def toLowerCaseChar_def)
  from h w
    C1_fix_signal_classification [of "''please fix the bug''" "''fixed''" "''Write''"]
    C1_fix_signal_classification [of "''please fix the bug''" "''fixed''" "''Read''"]
  show ?thesis by blast
qed

text \<open>
  Claim C1 as first stated also covers the worker's classifier, where it fails: reading
  a file whose path contains "fix" is an exploration of importance 0.3.
\<close>

theorem C1_ingestion_counterexample:
  "str_includes (toLowerCase ''src/hotfix.ts'') ''fix''
   \<and> autoClassify None None ''Read'' ''src/hotfix.ts'' ''export const x = 1'' = (''exploration'', 3/10)
   \<and> autoClassify None None ''Read'' ''src/hotfix.ts'' ''export const x = 1'' \<noteq> (''bugfix'', 9/10)"
  by (simp add: autoClassify_def classifyObservation_def calculateImportance_def
      typeImportance_def toLowerCase_def toLowerCaseChar_def)

text \<open>
  Claim C9, as amended. For a tool name that contains "write" or "edit", with an input
  that contains "fix" or an output that contains "fixed", the plugin's classifier and
  the worker's (\<open>classifyObservation\<close> with \<open>calculateImportance\<close>, as the tool-result
  handler combines them when the caller sends neither type nor importance) both return
  type bugfix; and when the output contains none of "error", "failed", "success" and
  "completed", both return importance 0.9.
\<close>

theorem C9_classifiers_agree_on_fix:
  assumes tool: "str_includes (toLowerCase toolName) ''write'' \<or>
                 str_includes (toLowerCase toolName) ''edit''"
      and sig: "str_includes (toLowerCase inp) ''fix'' \<or>
                str_includes (toLowerCase outp) ''fixed''"
  shows "fst (classifyToolResult toolName inp outp) = ''bugfix''
       \<and> fst (autoClassify None None toolName inp outp) = ''bugfix''
       \<and> (\<not> str_includes (toLowerCase outp) ''error'' \<and>
          \<not> str_includes (toLowerCase outp) ''failed'' \<and>
          \<not> str_includes (toLowerCase outp) ''success'' \<and>
          \<not> str_includes (toLowerCase outp) ''completed''
          \<longrightarrow> classifyToolResult toolName inp outp = (''bugfix'', 9/10)
            \<and> autoClassify None None toolName inp outp = (''bugfix'', 9/10))"
proof -
  from sig have cond: "str_includes (toLowerCase inp) ''fix'' \<or>
      str_includes (toLowerCase outp) ''fixed'' \<or>
      str_includes (toLowerCase outp) ''resolved'' \<or>
      str_includes (toLowerCase outp) ''error''"
    by blast
  have p: "classifyToolResult toolName inp outp = (''bugfix'', 9/10)"
    unfolding classifyToolResult_def Let_def by (simp only: if_P [OF cond])
  have c: "classifyObservation toolName inp outp = ''bugfix''"
    unfolding classifyObservation_def Let_def by (simp only: if_P [OF tool] if_P [OF sig])
  have q: "fst (autoClassify None None toolName inp outp) = ''bugfix''"
    using c by (simp add: autoClassify_def Let_def)
  have r: "autoClassify None None toolName inp outp = (''bugfix'', 9/10)"
    if "\<not> str_includes (toLowerCase outp) ''error''"
       "\<not> str_includes (toLowerCase outp) ''failed''"
       "\<not> str_includes (toLowerCase outp) ''success''"
       "\<not> str_includes (toLowerCase outp) ''completed''"
    using c that
    by (simp add: autoClassify_def calculateImportance_def Let_def map_of_typeImportance_bugfix)
  from p q r show ?thesis by simp
qed

theorem C9_classifiers_agree_on_fix_witness:
  "classifyToolResult ''Write'' ''please fix the bug'' ''fixed'' = (''bugfix'', 9/10)
   \<and> autoClassify None None ''Write'' ''please fix the bug'' ''fixed'' = (''bugfix'', 9/10)"
proof -
  have t: "str_includes (toLowerCase ''Write'') ''write'' \<or> str_includes (toLowerCase ''Write'') ''edit''"
    by (simp add: toLowerCase_def toLowerCaseChar_def)
  have f: "str_includes (toLowerCase ''please fix the bug'') ''fix'' \<or>
           str_includes (toLowerCase ''fixed'') ''fixed''"
    by (simp add: toLowerCase_def toLowerCaseChar_def)
  have n: "\<not> str_includes (toLowerCase ''fixed'') ''error'' \<and>
          \<not> str_includes (toLowerCase ''fixed'') ''failed'' \<and>
          \<not> str_includes (toLowerCase ''fixed'') ''success'' \<and>
          \<not> str_includes (toLowerCase ''fixed'') ''completed''"
    by (simp add: toLowerCase_def toLowerCaseChar_def)
  from C9_classifiers_agree_on_fix [OF t f] n show ?thesis by blast
qed

text \<open>
  Claim C9 as first stated counts "resolved" and "error" in the output as fix signals
  for both classifiers. The worker's classifier does not: on a write whose output
  reports an error the plugin says bugfix at 0.9 and the worker code_change at 0.8.
\<close>

theorem C9_disagreement_counterexample:
  "str_includes (toLowerCase ''Write'') ''write''
   \<and> str_includes (toLowerCase ''Error: disk full'') ''error''
   \<and> classifyToolResult ''Write'' ''update config'' ''Error: disk full'' = (''bugfix'', 9/10)
   \<and> autoClassify None None ''Write'' ''update config'' ''Error: disk full''
       = (''code_change'', 4/5)"
  by (simp add: autoClassify_def classifyObservation_def classifyToolResult_def
      calculateImportance_def typeImportance_def toLowerCase_def toLowerCaseChar_def)

section \<open>Properties of the store\<close>

lemmas store_eval =
  apiObservations_def getOrCreateSession_def getSession_def createSession_def
  createObservation_def emptyDatabase_def plainObservation_def strOrNull_def numOrNull_def
  Let_def





subsection \<open>The token budget\<close>

text \<open>
  The loop returns a prefix of the rows, appended to the accumulator: every row of the
  prefix fitted the budget when it was added, and the row after the prefix, if there is
  one, did not.
\<close>

lemma budgetLoop_prefix:
  "budgetLoop maxT rows acc run = (sel, tot) \<Longrightarrow>
   \<exists>k\<le>length rows.
      sel = acc @ take k rows
    \<and> tot = run + sum_list (map obsTokens (take k rows))
    \<and> (\<forall>j. 1 \<le> j \<and> j \<le> k \<longrightarrow> run + sum_list (map obsTokens (take j rows)) \<le> maxT)
    \<and> (k < length rows \<longrightarrow> maxT < run + sum_list (map obsTokens (take (Suc k) rows)))"
proof (induction rows arbitrary: acc run)
  case Nil
  then show ?case by simp
next
  case (Cons row rows)
  show ?case
  proof (cases "run + obsTokens row \<le> maxT")
    case False
    with Cons.prems have "sel = acc" "tot = run" by simp_all
    with False show ?thesis by (intro exI [of _ 0]) simp
  next
    case True
    with Cons.prems
    have "budgetLoop maxT rows (acc @ [row]) (run + obsTokens row) = (sel, tot)" by simp
    from Cons.IH [OF this] obtain k where k: "k \<le> length rows"
      and sel: "sel = (acc @ [row]) @ take k rows"
      and tot: "tot = run + obsTokens row + sum_list (map obsTokens (take k rows))"
      and fit: "\<And>j. 1 \<le> j \<Longrightarrow> j \<le> k \<Longrightarrow>
                  run + obsTokens row + sum_list (map obsTokens (take j rows)) \<le> maxT"
      and stop: "k < length rows \<Longrightarrow>
                  maxT < run + obsTokens row + sum_list (map obsTokens (take (Suc k) rows))"
      by auto
    have fit': "run + sum_list (map obsTokens (take j (row # rows))) \<le> maxT"
      if "1 \<le> j" "j \<le> Suc k" for j
    proof (cases j)
      case 0
      with that show ?thesis by simp
    next
      case (Suc i)
      show ?thesis
      proof (cases "i = 0")
        case True
        with Suc \<open>run + obsTokens row \<le> maxT\<close> show ?thesis by simp
      next
        case False
        with Suc that fit [of i] show ?thesis by (simp add: add.assoc)
      qed
    qed
    show ?thesis
    proof (intro exI [of _ "Suc k"] conjI allI impI)
      show "Suc k \<le> length (row # rows)" using k by simp
      show "sel = acc @ take (Suc k) (row # rows)" using sel by simp
      show "tot = run + sum_list (map obsTokens (take (Suc k) (row # rows)))"
        using tot by simp
      show "run + sum_list (map obsTokens (take j (row # rows))) \<le> maxT"
        if "1 \<le> j \<and> j \<le> Suc k" for j using fit' [of j] that by simp
      show "maxT < run + sum_list (map obsTokens (take (Suc (Suc k)) (row # rows)))"
        if "Suc k < length (row # rows)" using stop that by (simp add: add.assoc)
    qed
  qed
qed

lemma createObservation_tokens_nonzero:
  "createObservation now obs db = Inr (row, db') \<Longrightarrow> tokens row \<noteq> Some 0"
  by (auto simp: createObservation_def numOrNull_def Let_def split: if_splits option.splits)

text \<open>
  Claim C2. \<open>getContextForInjection\<close> returns a prefix of the candidate list, in its
  order: each row of the prefix kept the running total within the budget, and the first
  row that would exceed it ends the walk (no later row is looked at). The total it
  returns is the sum of the costs of the rows it returns. A row costs its token count,
  or 100 without one (a stored count is never zero: \<open>createObservation\<close> stores zero
  as absent). The candidate list has at most 100 rows, the budget is 4000 when
  \<open>maxTokens\<close> is not given, and three candidates that cost 40 each under a budget
  of 100 give the first two and the total 80.
\<close>

theorem C2_context_budget:
  assumes "getContextForInjection options db = (selected, totalTokens)"
  shows "(\<exists>k\<le>length (contextCandidates options db).
            selected = take k (contextCandidates options db)
          \<and> (\<forall>j. 1 \<le> j \<and> j \<le> k \<longrightarrow>
                sum_list (map obsTokens (take j (contextCandidates options db)))
                  \<le> contextBudget options)
          \<and> (k < length (contextCandidates options db) \<longrightarrow>
                contextBudget options
                  < sum_list (map obsTokens (take (Suc k) (contextCandidates options db)))))
       \<and> totalTokens = sum_list (map obsTokens selected)
       \<and> length (contextCandidates options db) \<le> 100
       \<and> (maxTokens options = None \<longrightarrow> contextBudget options = 4000)
       \<and> (\<forall>ob. tokens ob = None \<longrightarrow> obsTokens ob = 100)
       \<and> (\<forall>ob t. tokens ob = Some t \<and> t \<noteq> 0 \<longrightarrow> obsTokens ob = t)
       \<and> (\<forall>now obs d row d'. createObservation now obs d = Inr (row, d') \<longrightarrow> tokens row \<noteq> Some 0)
       \<and> (\<forall>a b c. obsTokens a = 40 \<and> obsTokens b = 40 \<and> obsTokens c = 40 \<longrightarrow>
             budgetLoop 100 [a, b, c] [] 0 = ([a, b], 80))"
proof -
  from assms have "budgetLoop (contextBudget options) (contextCandidates options db) [] 0
                     = (selected, totalTokens)"
    by (simp add: getContextForInjection_def)
  from budgetLoop_prefix [OF this]
  have prefix: "\<exists>k\<le>length (contextCandidates options db).
            selected = take k (contextCandidates options db)
          \<and> (\<forall>j. 1 \<le> j \<and> j \<le> k \<longrightarrow>
                sum_list (map obsTokens (take j (contextCandidates options db)))
                  \<le> contextBudget options)
          \<and> (k < length (contextCandidates options db) \<longrightarrow>
                contextBudget options
                  < sum_list (map obsTokens (take (Suc k) (contextCandidates options db))))"
    and tsum: "totalTokens = sum_list (map obsTokens selected)"
    by auto
  have cap: "length (contextCandidates options db) \<le> 100"
    by (simp add: contextCandidates_def Let_def)
  have dflt: "maxTokens options = None \<longrightarrow> contextBudget options = 4000"
    by (simp add: contextBudget_def numOrNull_def)
  have absent: "\<forall>ob. tokens ob = None \<longrightarrow> obsTokens ob = 100"
    by (simp add: obsTokens_def numOrNull_def)
  have present: "\<forall>ob t. tokens ob = Some t \<and> t \<noteq> 0 \<longrightarrow> obsTokens ob = t"
    by (simp add: obsTokens_def numOrNull_def)
  have stored: "\<forall>now obs d row d'. createObservation now obs d = Inr (row, d') \<longrightarrow>
                  tokens row \<noteq> Some 0"
    using createObservation_tokens_nonzero by blast
  have example: "\<forall>a b c. obsTokens a = 40 \<and> obsTokens b = 40 \<and> obsTokens c = 40 \<longrightarrow>
             budgetLoop 100 [a, b, c] [] 0 = ([a, b], 80)"
    by simp
  from prefix tsum cap dflt absent present stored example show ?thesis by blast
qed

text \<open>
  In the example store the fourth candidate costs 10 and would fit after the first two,
  but the walk has stopped at the third.
\<close>

theorem C2_context_budget_witness:
  "map obsTokens (contextCandidates budgetOptions budgetStore) = [40, 40, 40, 10]
   \<and> map o_id (fst (getContextForInjection budgetOptions budgetStore)) = [1, 2]
   \<and> snd (getContextForInjection budgetOptions budgetStore) = 80
   \<and> snd (getContextForInjection budgetOptions budgetStore)
       = sum_list (map obsTokens (fst (getContextForInjection budgetOptions budgetStore)))
   \<and> length (contextCandidates budgetOptions budgetStore) \<le> 100"
proof -
  have c: "map obsTokens (contextCandidates budgetOptions budgetStore) = [40, 40, 40, 10]"
    by (simp add: budgetStore_def budgetOptions_def contextCandidates_def obsTokens_def
        store_eval)
  have i: "map o_id (fst (getContextForInjection budgetOptions budgetStore)) = [1, 2]"
    by (simp add: budgetStore_def budgetOptions_def getContextForInjection_def
        contextCandidates_def contextBudget_def obsTokens_def store_eval)
  have t: "snd (getContextForInjection budgetOptions budgetStore) = 80"
    by (simp add: budgetStore_def budgetOptions_def getContextForInjection_def
        contextCandidates_def contextBudget_def obsTokens_def store_eval)
  have p: "getContextForInjection budgetOptions budgetStore
             = (fst (getContextForInjection budgetOptions budgetStore),
                snd (getContextForInjection budgetOptions budgetStore))"
    by simp
  from C2_context_budget [OF p] c i t show ?thesis by blast
qed

section \<open>Properties of search\<close>

lemma map_filter_length:
  "length (List.map_filter f xs) = length (filter (\<lambda>x. f x \<noteq> None) xs)"
  by (simp add: List.map_filter_def)

lemma map_filter_empty:
  "(\<forall>x\<in>set xs. f x = None) \<Longrightarrow> List.map_filter f xs = []"
  by (simp add: List.map_filter_def)

lemmas search_eval =
  apiSearch_def tryCatch_def search_def sqlLimit_def sampleFts_def noOptions_def
  searchRow_def List.map_filter_def toLowerCase_def toLowerCaseChar_def

text \<open>
  Claim C7. Whatever the query, the options and the store, the search handler returns a
  response and no error escapes it. When the engine rejects the query, the response has
  an empty result list, count 0 and the error text; when the engine accepts the query
  and no row matches, or the store has no observation, the response has an empty result
  list, count 0 and no error.
\<close>

theorem C7_search_boundary:
  "(\<exists>r. apiSearch fts q options db = Inr r \<and> sr_query r = q \<and>
         sr_count r = length (sr_results r))
   \<and> (fts q (observations db) = None \<longrightarrow>
        apiSearch fts q options db =
          Inr \<lparr>sr_query = q, sr_results = [], sr_count = 0,
               sr_error = Some ''Search query syntax error''\<rparr>)
   \<and> (\<forall>rank. fts q (observations db) = Some rank \<and>
               (\<forall>ob\<in>set (observations db). rank ob = None) \<longrightarrow>
        apiSearch fts q options db =
          Inr \<lparr>sr_query = q, sr_results = [], sr_count = 0, sr_error = None\<rparr>)
   \<and> (\<forall>rank. observations db = [] \<and> fts q [] = Some rank \<longrightarrow>
        apiSearch fts q options db =
          Inr \<lparr>sr_query = q, sr_results = [], sr_count = 0, sr_error = None\<rparr>)"
proof (intro conjI allI impI)
  show "\<exists>r. apiSearch fts q options db = Inr r \<and> sr_query r = q \<and>
         sr_count r = length (sr_results r)"
    by (cases "fts q (observations db)")
       (simp_all add: apiSearch_def tryCatch_def search_def Let_def)
next
  assume "fts q (observations db) = None"
  then show "apiSearch fts q options db =
          Inr \<lparr>sr_query = q, sr_results = [], sr_count = 0,
               sr_error = Some ''Search query syntax error''\<rparr>"
    by (simp add: apiSearch_def tryCatch_def search_def Let_def)
next
  fix rank
  assume a: "fts q (observations db) = Some rank \<and>
             (\<forall>ob\<in>set (observations db). rank ob = None)"
  then have "List.map_filter
               (\<lambda>ob. case rank ob of
                        None \<Rightarrow> None
                      | Some rk \<Rightarrow>
                          if (case strOrNull (opt_type options) of
                                None \<Rightarrow> True | Some t \<Rightarrow> o_type ob = t) \<and>
                             (case opt_since options of
                                None \<Rightarrow> True | Some since \<Rightarrow> since \<le> created_at ob)
                          then Some (searchRow ob rk) else None)
               (observations db) = []"
    by (intro map_filter_empty) simp
  with a show "apiSearch fts q options db =
          Inr \<lparr>sr_query = q, sr_results = [], sr_count = 0, sr_error = None\<rparr>"
    by (simp add: apiSearch_def tryCatch_def search_def Let_def sqlLimit_def)
next
  fix rank
  assume "observations db = [] \<and> fts q [] = Some rank"
  then show "apiSearch fts q options db =
          Inr \<lparr>sr_query = q, sr_results = [], sr_count = 0, sr_error = None\<rparr>"
    by (simp add: apiSearch_def tryCatch_def search_def Let_def sqlLimit_def
        List.map_filter_def)
qed

text \<open>
  With the stand-in engine: a query with an unbalanced quote, a query that matches no
  row, a query on the empty store, and a query that matches one row.
\<close>

theorem C7_search_boundary_witness:
  "sampleFts (CHR 0x22 # ''decision'') (observations timelineStore) = None
   \<and> apiSearch sampleFts (CHR 0x22 # ''decision'') noOptions timelineStore =
       Inr \<lparr>sr_query = CHR 0x22 # ''decision'', sr_results = [], sr_count = 0,
            sr_error = Some ''Search query syntax error''\<rparr>
   \<and> apiSearch sampleFts ''bugfix'' noOptions timelineStore =
       Inr \<lparr>sr_query = ''bugfix'', sr_results = [], sr_count = 0, sr_error = None\<rparr>
   \<and> apiSearch sampleFts ''decision'' noOptions emptyDatabase =
       Inr \<lparr>sr_query = ''decision'', sr_results = [], sr_count = 0, sr_error = None\<rparr>
   \<and> map r_id (sr_results (projr (apiSearch sampleFts ''decision'' noOptions timelineStore)))
       = [3]"
proof -
  have bad: "sampleFts (CHR 0x22 # ''decision'') (observations timelineStore) = None"
    by (simp add: sampleFts_def)
  have ok: "sampleFts ''bugfix'' (observations timelineStore)
              = Some (\<lambda>ob. if str_includes (toLowerCase (o_type ob)) (toLowerCase ''bugfix'')
                              then Some (- 1) else None)"
    by (simp add: sampleFts_def)
  have none: "\<forall>ob\<in>set (observations timelineStore).
                (if str_includes (toLowerCase (o_type ob)) (toLowerCase ''bugfix'')
                 then Some (- 1 :: rat) else None) = None"
    by (simp add: timelineStore_def store_eval toLowerCase_def toLowerCaseChar_def)
  have empty: "observations emptyDatabase = [] \<and>
               sampleFts ''decision'' [] =
                 Some (\<lambda>ob. if str_includes (toLowerCase (o_type ob)) (toLowerCase ''decision'')
                              then Some (- 1) else None)"
    by (simp add: sampleFts_def emptyDatabase_def)
  have hit: "map r_id (sr_results (projr (apiSearch sampleFts ''decision'' noOptions timelineStore)))
       = [3]"
    by (simp add: timelineStore_def store_eval search_eval)
  from C7_search_boundary [of sampleFts "CHR 0x22 # ''decision''" noOptions timelineStore] bad
  have 1: "apiSearch sampleFts (CHR 0x22 # ''decision'') noOptions timelineStore =
       Inr \<lparr>sr_query = CHR 0x22 # ''decision'', sr_results = [], sr_count = 0,
            sr_error = Some ''Search query syntax error''\<rparr>"
    by blast
  from C7_search_boundary [of sampleFts "''bugfix''" noOptions timelineStore] ok none
  have 2: "apiSearch sampleFts ''bugfix'' noOptions timelineStore =
       Inr \<lparr>sr_query = ''bugfix'', sr_results = [], sr_count = 0, sr_error = None\<rparr>"
    by blast
  from C7_search_boundary [of sampleFts "''decision''" noOptions emptyDatabase] empty
  have 3: "apiSearch sampleFts ''decision'' noOptions emptyDatabase =
       Inr \<lparr>sr_query = ''decision'', sr_results = [], sr_count = 0, sr_error = None\<rparr>"
    by blast
  from bad 1 2 3 hit show ?thesis by blast
qed

text \<open>
  Claim C10. In \<open>search\<close> the limit 0 is replaced by the default 10, as an absent
  limit is: when the engine accepts the query and at least one row matches, the search
  with limit 0 and no other filter returns what the search with no limit given returns,
  a non-empty list of the 10 best matches, or of all of them when there are fewer.
\<close>

theorem C10_search_limit_zero:
  assumes wf: "fts q (observations db) = Some rank"
      and hit: "\<exists>ob\<in>set (observations db). rank ob \<noteq> None"
  shows "search fts q \<lparr>opt_type = None, opt_since = None, opt_limit = Some 0\<rparr> db
           = search fts q \<lparr>opt_type = None, opt_since = None, opt_limit = None\<rparr> db
       \<and> (\<exists>rs. search fts q \<lparr>opt_type = None, opt_since = None, opt_limit = Some 0\<rparr> db
                  = Inr rs
              \<and> rs \<noteq> []
              \<and> length rs = min 10 (length (filter (\<lambda>ob. rank ob \<noteq> None) (observations db))))"
proof -
  let ?f = "\<lambda>ob. case rank ob of None \<Rightarrow> None | Some rk \<Rightarrow> Some (searchRow ob rk)"
  have same: "(\<lambda>ob. ?f ob \<noteq> None) = (\<lambda>ob. rank ob \<noteq> None)"
    by (auto split: option.splits)
  have len: "length (List.map_filter ?f (observations db))
               = length (filter (\<lambda>ob. rank ob \<noteq> None) (observations db))"
    by (subst map_filter_length) (simp only: same)
  from hit have pos: "0 < length (filter (\<lambda>ob. rank ob \<noteq> None) (observations db))"
    by (simp add: filter_empty_conv)
  have eq: "search fts q \<lparr>opt_type = None, opt_since = None, opt_limit = Some 0\<rparr> db
              = Inr (take 10 (sort_key r_rank (List.map_filter ?f (observations db))))"
    using wf by (simp add: search_def sqlLimit_def strOrNull_def cong: option.case_cong)
  have eq': "search fts q \<lparr>opt_type = None, opt_since = None, opt_limit = None\<rparr> db
              = Inr (take 10 (sort_key r_rank (List.map_filter ?f (observations db))))"
    using wf by (simp add: search_def sqlLimit_def strOrNull_def cong: option.case_cong)
  have l: "length (take 10 (sort_key r_rank (List.map_filter ?f (observations db))))
             = min 10 (length (filter (\<lambda>ob. rank ob \<noteq> None) (observations db)))"
    by (simp add: len min.commute)
  with pos have ne: "take 10 (sort_key r_rank (List.map_filter ?f (observations db))) \<noteq> []"
    by (metis length_greater_0_conv min_less_iff_conj zero_less_numeral)
  from eq eq' l ne show ?thesis by simp
qed

text \<open>Twelve rows match in the example store; limit 0 returns ten of them.\<close>

theorem C10_search_limit_zero_witness:
  "length (observations searchStore) = 12
   \<and> map r_id (projr (search sampleFts ''decision''
                        \<lparr>opt_type = None, opt_since = None, opt_limit = Some 0\<rparr> searchStore))
       = [1, 2, 3, 4, 5, 6, 7, 8, 9, 10]
   \<and> search sampleFts ''decision''
        \<lparr>opt_type = None, opt_since = None, opt_limit = Some 0\<rparr> searchStore
       = search sampleFts ''decision''
           \<lparr>opt_type = None, opt_since = None, opt_limit = None\<rparr> searchStore"
proof -
  have n: "length (observations searchStore) = 12"
    by (simp add: searchStore_def store_eval)
  have wf: "sampleFts ''decision'' (observations searchStore)
              = Some (\<lambda>ob. if str_includes (toLowerCase (o_type ob)) (toLowerCase ''decision'')
                              then Some (- 1) else None)"
    by (simp add: sampleFts_def)
  have hit: "\<exists>ob\<in>set (observations searchStore).
               (if str_includes (toLowerCase (o_type ob)) (toLowerCase ''decision'')
                then Some (- 1 :: rat) else None) \<noteq> None"
    by (simp add: searchStore_def store_eval toLowerCase_def toLowerCaseChar_def)
  have ids: "map r_id (projr (search sampleFts ''decision''
                        \<lparr>opt_type = None, opt_since = None, opt_limit = Some 0\<rparr> searchStore))
       = [1, 2, 3, 4, 5, 6, 7, 8, 9, 10]"
    by (simp add: searchStore_def store_eval search_eval)
  from C10_search_limit_zero
         [of sampleFts "''decision''" searchStore
             "\<lambda>ob. if str_includes (toLowerCase (o_type ob)) (toLowerCase ''decision'')
                   then Some (- 1) else None", OF wf hit]
       n ids
  show ?thesis by blast
qed

section \<open>Properties of the handlers\<close>

lemmas scenario_eval =
  scenarioIngest_def scenarioBody_def hookToolResult_def autoClassify_def
  classifyObservation_def calculateImportance_def typeImportance_def
  truncateForStorage_def toLowerCase_def toLowerCaseChar_def






text \<open>
  \<open>createObservation\<close> stores the importance it is given, and 0.5 when it is given
  none.
\<close>

lemma createObservation_importance:
  "createObservation now obs db = Inr (row, db') \<Longrightarrow>
   importance row = (case n_importance obs of None \<Rightarrow> 1/2 | Some i \<Rightarrow> i)"
  by (auto simp: createObservation_def Let_def split: if_splits option.splits)

text \<open>
  Claim C3 at a failing input. The schema documents the column \<^verbatim>\<open>importance\<close> as
  "0.0 to 1.0", and the importance that \<open>calculateImportance\<close> computes is within
  these bounds (\<open>calculateImportance_bounds\<close>), but an importance sent by the caller
  is stored as it is: 7 through \<^verbatim>\<open>POST /api/observations\<close>, and -3 through the
  tool-result hook.
\<close>

theorem C3_importance_stored_as_sent:
  "\<not> isl (apiObservations 0 ''s1'' (plainObservation ''decision'' None (Some 7)) emptyDatabase)
   \<and> importance (fst (projr (apiObservations 0 ''s1''
                               (plainObservation ''decision'' None (Some 7)) emptyDatabase))) = 7
   \<and> \<not> isl (hookToolResult 0 (scenarioBody\<lparr>tr_importance := Some (- 3)\<rparr>) emptyDatabase)
   \<and> importance (fst (projr (hookToolResult 0 (scenarioBody\<lparr>tr_importance := Some (- 3)\<rparr>)
                               emptyDatabase))) = - 3"
  by (simp add: scenario_eval store_eval)

text \<open>
  For a key that has a session, \<open>createSession\<close> and the session-start hook fail on
  the \<^verbatim>\<open>UNIQUE\<close> constraint of \<^verbatim>\<open>session_key\<close>; the get-or-create sequence of the
  two ingestion handlers returns the existing session and leaves the store as it is.
\<close>

lemma existing_key_is_member:
  "getSession sessionKey db = Some s \<Longrightarrow> sessionKey \<in> set (map session_key (sessions db))"
  by (auto simp: getSession_def find_Some_iff)

lemma session_start_existing_key:
  assumes "getSession sessionKey db = Some s"
  shows "createSession now sessionKey projectPathOpt db = Inl SQLITE_CONSTRAINT_UNIQUE"
    and "hookSessionStart now sessionKey projectPathOpt db = Inl SQLITE_CONSTRAINT_UNIQUE"
    and "getOrCreateSession now sessionKey db = Inr (s, db)"
  using existing_key_is_member [OF assms] assms
  by (simp_all add: createSession_def hookSessionStart_def getOrCreateSession_def)

text \<open>
  Claim C5 at a failing input. The session-start hook is called twice with the key
  "s1", from the empty store: the first call creates the session, the second does not
  reuse it but fails with the constraint error, where the get-or-create sequence of the
  ingestion handlers returns the session of the first call.
\<close>

theorem C5_session_start_twice:
  "\<not> isl (hookSessionStart 0 ''s1'' None emptyDatabase)
   \<and> map session_key (sessions (snd (projr (hookSessionStart 0 ''s1'' None emptyDatabase))))
       = [''s1'']
   \<and> hookSessionStart 60 ''s1'' None (snd (projr (hookSessionStart 0 ''s1'' None emptyDatabase)))
       = Inl SQLITE_CONSTRAINT_UNIQUE
   \<and> getOrCreateSession 60 ''s1'' (snd (projr (hookSessionStart 0 ''s1'' None emptyDatabase)))
       = Inr (fst (fst (projr (hookSessionStart 0 ''s1'' None emptyDatabase))),
              snd (projr (hookSessionStart 0 ''s1'' None emptyDatabase)))"
  by (simp add: hookSessionStart_def store_eval)

end
